theory Spec2Isabelle
  imports Complex_Main "HOL-Library.Word"
begin

unbundle bit_operations_syntax

section \<open>Bit primitives (WordConfiguration<uint64_t>)\<close>

text \<open>
  The aligner is instantiated at \<open>Word = uint64_t\<close>; a word is a \<open>64 word\<close>, on which
  \<open>+\<close>, \<open>-\<close> and \<open>*\<close> wrap modulo \<open>2 ^ 64\<close> as the unsigned C++ operators do.
  \<open>ScoreType\<close> is a template parameter; scores are modelled as \<open>int\<close>, and the places where
  the source consults \<open>std::numeric_limits<ScoreType>::max()\<close> take that value as a parameter.
\<close>

type_synonym Word = "64 word"

definition WordSize :: nat where
  "WordSize = 64"

definition ChunkBits :: nat where
  "ChunkBits = 8"

definition AllZeros :: Word where
  "AllZeros = 0x0000000000000000"

definition AllOnes :: Word where
  "AllOnes = 0xFFFFFFFFFFFFFFFF"

definition SignMask :: Word where
  "SignMask = 0x8080808080808080"

definition PrefixSumMultiplierConstant :: Word where
  "PrefixSumMultiplierConstant = 0x0101010101010101"

definition LSBMask :: Word where
  "LSBMask = 0x0101010101010101"

definition ChunkPopcounts :: "Word \<Rightarrow> Word" where
  "ChunkPopcounts v =
    (let x = v - (drop_bit 1 v AND 0x5555555555555555);
         x = (x AND 0x3333333333333333) + (drop_bit 2 x AND 0x3333333333333333);
         x = (x + drop_bit 4 x) AND 0x0f0f0f0f0f0f0f0f
     in x)"

definition popcount :: "Word \<Rightarrow> int" where
  "popcount v =
    (let x = v - (drop_bit 1 v AND 0x5555555555555555);
         x = (x AND 0x3333333333333333) + (drop_bit 2 x AND 0x3333333333333333);
         x = (x + drop_bit 4 x) AND 0x0f0f0f0f0f0f0f0f
     in uint (drop_bit 56 (x * 0x0101010101010101)))"

definition bytePrefixSums :: "Word \<Rightarrow> int \<Rightarrow> Word" where
  "bytePrefixSums v addition =
    (push_bit ChunkBits v + word_of_int addition) * PrefixSumMultiplierConstant"

definition byteVPVNSum :: "Word \<Rightarrow> Word \<Rightarrow> Word" where
  "byteVPVNSum prefixSumVP prefixSumVN =
    ((SignMask + prefixSumVP) - prefixSumVN) XOR SignMask"

section \<open>WordSlice\<close>

record WordSlice =
  VP :: Word
  VN :: Word
  scoreEnd :: int
  scoreBeforeStart :: int

definition getSourceSliceWithoutBefore :: "nat \<Rightarrow> WordSlice" where
  "getSourceSliceWithoutBefore row =
    \<lparr>VP = AllOnes, VN = AllZeros, scoreEnd = int row + int WordSize, scoreBeforeStart = int row\<rparr>"

definition getSourceSliceFromScore :: "int \<Rightarrow> WordSlice" where
  "getSourceSliceFromScore previousScore =
    \<lparr>VP = AllOnes, VN = AllZeros, scoreEnd = previousScore + int WordSize,
     scoreBeforeStart = previousScore\<rparr>"

section \<open>Difference masks\<close>

text \<open>
  \<open>differenceMasksCellByCell\<close> is the scalar reference of the source: it walks the 64 rows,
  keeping the two running scores, and sets bit \<open>i\<close> of the first (second) mask when the left
  (right) score is strictly smaller at row \<open>i\<close>.
\<close>

record CellByCellState =
  cc_leftscore :: int
  cc_rightscore :: int
  cc_leftVP :: Word
  cc_leftVN :: Word
  cc_rightVP :: Word
  cc_rightVN :: Word
  cc_leftSmaller :: Word
  cc_rightSmaller :: Word

definition differenceMasksCellByCell_step :: "nat \<Rightarrow> CellByCellState \<Rightarrow> CellByCellState" where
  "differenceMasksCellByCell_step i s =
    (let leftscore = cc_leftscore s + uint (cc_leftVP s AND 1);
         leftscore = leftscore - uint (cc_leftVN s AND 1);
         rightscore = cc_rightscore s + uint (cc_rightVP s AND 1);
         rightscore = rightscore - uint (cc_rightVN s AND 1)
     in \<lparr>cc_leftscore = leftscore, cc_rightscore = rightscore,
         cc_leftVP = drop_bit 1 (cc_leftVP s), cc_leftVN = drop_bit 1 (cc_leftVN s),
         cc_rightVP = drop_bit 1 (cc_rightVP s), cc_rightVN = drop_bit 1 (cc_rightVN s),
         cc_leftSmaller =
           (if leftscore < rightscore then cc_leftSmaller s OR push_bit i 1 else cc_leftSmaller s),
         cc_rightSmaller =
           (if rightscore < leftscore then cc_rightSmaller s OR push_bit i 1
            else cc_rightSmaller s)\<rparr>)"

definition differenceMasksCellByCell :: "Word \<Rightarrow> Word \<Rightarrow> Word \<Rightarrow> Word \<Rightarrow> int \<Rightarrow> Word \<times> Word" where
  "differenceMasksCellByCell leftVP leftVN rightVP rightVN scoreDifference =
    (let s = fold differenceMasksCellByCell_step [0..<64]
               \<lparr>cc_leftscore = 0, cc_rightscore = scoreDifference,
                cc_leftVP = leftVP, cc_leftVN = leftVN, cc_rightVP = rightVP, cc_rightVN = rightVN,
                cc_leftSmaller = 0, cc_rightSmaller = 0\<rparr>
     in (cc_leftSmaller s, cc_rightSmaller s))"

text \<open>
  The bit-parallel version. \<open>differenceMasks_prefix\<close> is the braced block of the source
  that subtracts the right byte-wise prefix sums from the left ones; \<open>differenceMasks_step\<close>
  is the body of the loop over the eight bit positions of a chunk.
\<close>

record DiffState =
  ds_difference :: Word
  ds_leftVP :: Word
  ds_leftVN :: Word
  ds_rightVP :: Word
  ds_rightVN :: Word
  ds_resultLeftSmallerThanRight :: Word
  ds_resultRightSmallerThanLeft :: Word

definition differenceMasks_prefix :: "Word \<Rightarrow> Word \<Rightarrow> Word" where
  "differenceMasks_prefix byteVPVNSumLeft byteVPVNSumRight =
    (let difference = byteVPVNSumLeft;
         smearmask = drop_bit (ChunkBits - 1) (byteVPVNSumRight AND SignMask)
                       * (push_bit (ChunkBits - 1) 1 - 1);
         deductions = NOT smearmask AND byteVPVNSumRight AND NOT SignMask;
         additions = (smearmask AND NOT byteVPVNSumRight) + (smearmask AND LSBMask);
         signsBefore = difference AND SignMask;
         difference = difference AND NOT SignMask;
         difference = difference + additions;
         difference = difference XOR signsBefore;
         signsBefore = difference AND SignMask;
         difference = difference OR SignMask;
         difference = difference - deductions;
         signsBefore = signsBefore XOR (SignMask AND NOT difference);
         difference = difference AND NOT SignMask;
         difference = difference OR signsBefore
     in difference)"

definition differenceMasks_step :: "nat \<Rightarrow> DiffState \<Rightarrow> DiffState" where
  "differenceMasks_step bit_i s =
    (let difference = ds_difference s;
         signsBefore = difference AND SignMask;
         difference = difference AND NOT SignMask;
         difference = difference + (ds_leftVP s AND LSBMask);
         difference = difference + (ds_rightVN s AND LSBMask);
         difference = difference XOR signsBefore;
         signsBefore = difference AND SignMask;
         difference = difference OR SignMask;
         difference = difference - (ds_leftVN s AND LSBMask);
         difference = difference - (ds_rightVP s AND LSBMask);
         signsBefore = signsBefore XOR (SignMask AND NOT difference);
         difference = difference AND NOT SignMask;
         difference = difference OR signsBefore;
         negative = difference AND SignMask;
         notEqualToZero = ((difference OR SignMask) - LSBMask) AND SignMask
     in \<lparr>ds_difference = difference,
         ds_leftVP = drop_bit 1 (ds_leftVP s), ds_leftVN = drop_bit 1 (ds_leftVN s),
         ds_rightVP = drop_bit 1 (ds_rightVP s), ds_rightVN = drop_bit 1 (ds_rightVN s),
         ds_resultLeftSmallerThanRight =
           ds_resultLeftSmallerThanRight s OR drop_bit (ChunkBits - 1 - bit_i) negative,
         ds_resultRightSmallerThanLeft =
           ds_resultRightSmallerThanLeft s
             OR drop_bit (ChunkBits - 1 - bit_i) (notEqualToZero AND NOT negative)\<rparr>)"

definition differenceMasks :: "Word \<Rightarrow> Word \<Rightarrow> Word \<Rightarrow> Word \<Rightarrow> int \<Rightarrow> Word \<times> Word" where
  "differenceMasks leftVP0 leftVN0 rightVP0 rightVN0 scoreDifference =
    (let VPcommon = NOT (leftVP0 AND rightVP0);
         VNcommon = NOT (leftVN0 AND rightVN0);
         leftVP = leftVP0 AND VPcommon;
         leftVN = leftVN0 AND VNcommon;
         rightVP = rightVP0 AND VPcommon;
         rightVN = rightVN0 AND VNcommon
     in if scoreDifference > popcount rightVN + popcount leftVP then (AllOnes, AllZeros)
        else if scoreDifference = 128 \<and> rightVN = AllOnes \<and> leftVP = AllOnes
          then (AllOnes XOR push_bit (WordSize - 1) 1, AllZeros)
        else if scoreDifference = 0 \<and> rightVN = AllOnes \<and> leftVP = AllOnes
          then (0, AllOnes)
        else
          (let byteVPVNSumLeft =
                 byteVPVNSum (bytePrefixSums (ChunkPopcounts leftVP) 0)
                             (bytePrefixSums (ChunkPopcounts leftVN) 0);
               byteVPVNSumRight =
                 byteVPVNSum (bytePrefixSums (ChunkPopcounts rightVP) scoreDifference)
                             (bytePrefixSums (ChunkPopcounts rightVN) 0);
               s = fold differenceMasks_step [0..<ChunkBits]
                     \<lparr>ds_difference = differenceMasks_prefix byteVPVNSumLeft byteVPVNSumRight,
                      ds_leftVP = leftVP, ds_leftVN = leftVN,
                      ds_rightVP = rightVP, ds_rightVN = rightVN,
                      ds_resultLeftSmallerThanRight = 0, ds_resultRightSmallerThanLeft = 0\<rparr>
           in (ds_resultLeftSmallerThanRight s, ds_resultRightSmallerThanLeft s)))"

section \<open>Merging two slices\<close>

definition mergeTwoSlices :: "WordSlice \<Rightarrow> WordSlice \<Rightarrow> WordSlice" where
  "mergeTwoSlices left0 right0 =
    (let (left, right) =
           (if scoreBeforeStart left0 > scoreBeforeStart right0 then (right0, left0)
            else (left0, right0));
         (leftSmaller, rightSmaller) =
           differenceMasks (VP left) (VN left) (VP right) (VN right)
             (scoreBeforeStart right - scoreBeforeStart left);
         mask = (rightSmaller OR ((leftSmaller OR rightSmaller) - push_bit 1 rightSmaller))
                  AND NOT leftSmaller;
         leftReduction = leftSmaller AND push_bit 1 rightSmaller;
         rightReduction = rightSmaller AND push_bit 1 leftSmaller;
         rightReduction =
           (if rightSmaller AND 1 \<noteq> 0 \<and> scoreBeforeStart left < scoreBeforeStart right
            then rightReduction OR 1 else rightReduction);
         leftVN = VN left AND NOT leftReduction;
         rightVN = VN right AND NOT rightReduction
     in \<lparr>VP = (VP left AND NOT mask) OR (VP right AND mask),
         VN = (leftVN AND NOT mask) OR (rightVN AND mask),
         scoreEnd = min (scoreEnd left) (scoreEnd right),
         scoreBeforeStart = min (scoreBeforeStart left) (scoreBeforeStart right)\<rparr>)"

section \<open>Advancing one graph character\<close>

definition lastBitMask :: Word where
  "lastBitMask = push_bit (WordSize - 1) 1"

definition getNextSlice :: "Word \<Rightarrow> WordSlice \<Rightarrow> bool \<Rightarrow> bool \<Rightarrow> WordSlice \<Rightarrow> WordSlice" where
  "getNextSlice Eq0 slice0 previousInsideBand previousEq previous =
    (let oldValue = scoreBeforeStart slice0;
         newBeforeStart =
           (if \<not> previousInsideBand then scoreBeforeStart slice0 + 1
            else min (scoreBeforeStart slice0 + 1)
                     (scoreEnd previous
                        - (if VP previous AND lastBitMask \<noteq> 0 then 1 else 0)
                        + (if VN previous AND lastBitMask \<noteq> 0 then 1 else 0)
                        + (if previousEq then 0 else 1)));
         hin = newBeforeStart - oldValue;
         Xv = Eq0 OR VN slice0;
         Eq = (if hin < 0 then Eq0 OR 1 else Eq0);
         Xh = (((Eq AND VP slice0) + VP slice0) XOR VP slice0) OR Eq;
         Ph = VN slice0 OR NOT (Xh OR VP slice0);
         Mh = VP slice0 AND Xh;
         newEnd =
           (if Ph AND lastBitMask \<noteq> 0 then scoreEnd slice0 + 1
            else if Mh AND lastBitMask \<noteq> 0 then scoreEnd slice0 - 1
            else scoreEnd slice0);
         Ph = push_bit 1 Ph;
         Mh = push_bit 1 Mh;
         Mh = (if hin < 0 then Mh OR 1 else Mh);
         Ph = (if hin < 0 then Ph else if hin > 0 then Ph OR 1 else Ph)
     in \<lparr>VP = Mh OR NOT (Xv OR Ph), VN = Ph AND Xv,
         scoreEnd = newEnd, scoreBeforeStart = newBeforeStart\<rparr>)"

text \<open>
  The two halves of \<open>getNextSlice\<close>, named for the proofs: the new \<open>scoreBeforeStart\<close>, and
  the bit-vector update once that score is known.
\<close>

definition nextBeforeStart :: "WordSlice \<Rightarrow> bool \<Rightarrow> bool \<Rightarrow> WordSlice \<Rightarrow> int" where
  "nextBeforeStart slice0 previousInsideBand previousEq previous =
    (if \<not> previousInsideBand then scoreBeforeStart slice0 + 1
     else min (scoreBeforeStart slice0 + 1)
              (scoreEnd previous
                 - (if VP previous AND lastBitMask \<noteq> 0 then 1 else 0)
                 + (if VN previous AND lastBitMask \<noteq> 0 then 1 else 0)
                 + (if previousEq then 0 else 1)))"

definition advanceSlice :: "Word \<Rightarrow> WordSlice \<Rightarrow> int \<Rightarrow> WordSlice" where
  "advanceSlice Eq0 slice0 newBeforeStart =
    (let hin = newBeforeStart - scoreBeforeStart slice0;
         Xv = Eq0 OR VN slice0;
         Eq = (if hin < 0 then Eq0 OR 1 else Eq0);
         Xh = (((Eq AND VP slice0) + VP slice0) XOR VP slice0) OR Eq;
         Ph = VN slice0 OR NOT (Xh OR VP slice0);
         Mh = VP slice0 AND Xh;
         newEnd =
           (if Ph AND lastBitMask \<noteq> 0 then scoreEnd slice0 + 1
            else if Mh AND lastBitMask \<noteq> 0 then scoreEnd slice0 - 1
            else scoreEnd slice0);
         Ph = push_bit 1 Ph;
         Mh = push_bit 1 Mh;
         Mh = (if hin < 0 then Mh OR 1 else Mh);
         Ph = (if hin < 0 then Ph else if hin > 0 then Ph OR 1 else Ph)
     in \<lparr>VP = Mh OR NOT (Xv OR Ph), VN = Ph AND Xv,
         scoreEnd = newEnd, scoreBeforeStart = newBeforeStart\<rparr>)"

section \<open>The alignment graph and the per-column stores\<close>

text \<open>
  The class \<open>AlignmentGraph\<close> is declared outside the file under verification; the aligner
  only reads it. Its containers are taken as total accessor functions: \<open>nodeStart\<close> and
  \<open>nodeEnd\<close> give the half-open character range of a node, \<open>indexToNode\<close> the node owning
  a character position, \<open>nodeSequences\<close> the character at a position, \<open>inNeighbors\<close> and
  \<open>outNeighbors\<close> the neighbour sets in the order in which the source iterates them.
\<close>

record AlignmentGraph =
  nodeCount :: nat
  nodeStart :: "nat \<Rightarrow> nat"
  nodeEnd :: "nat \<Rightarrow> nat"
  indexToNode :: "nat \<Rightarrow> nat"
  nodeSequences :: "nat \<Rightarrow> char"
  inNeighbors :: "nat \<Rightarrow> nat list"
  outNeighbors :: "nat \<Rightarrow> nat list"
  nodeIDs :: "nat \<Rightarrow> int"
  isReverse :: "nat \<Rightarrow> bool"
  firstInOrder :: nat
  dummyNodeStart :: nat
  dummyNodeEnd :: nat

text \<open>
  \<open>NodeSlice<WordSlice>\<close> (also declared elsewhere) maps a node to the vector of its slices;
  \<open>addNode\<close> installs a vector of default-constructed slices. A band is a
  \<open>std::vector<bool>\<close> indexed by node.
\<close>

type_synonym NodeSlice = "nat \<Rightarrow> WordSlice list"

type_synonym Band = "nat \<Rightarrow> bool"

definition defaultWordSlice :: WordSlice where
  "defaultWordSlice = \<lparr>VP = AllZeros, VN = AllZeros, scoreEnd = 0, scoreBeforeStart = 0\<rparr>"

definition addNode :: "nat \<Rightarrow> nat \<Rightarrow> NodeSlice \<Rightarrow> NodeSlice" where
  "addNode i size_i ns = ns(i := replicate size_i defaultWordSlice)"

definition emptyNodeSlice :: NodeSlice where
  "emptyNodeSlice = (\<lambda>i. [])"

section \<open>The node column calculator\<close>

definition getSourceSlice :: "nat \<Rightarrow> NodeSlice \<Rightarrow> WordSlice" where
  "getSourceSlice nodeIndex previousSlice =
    getSourceSliceFromScore (scoreEnd (previousSlice nodeIndex ! 0))"

fun isSource_loop :: "Band \<Rightarrow> Band \<Rightarrow> nat list \<Rightarrow> bool" where
  "isSource_loop currentBand previousBand [] = True"
| "isSource_loop currentBand previousBand (neighbor # rest) =
    (if currentBand neighbor then False
     else if previousBand neighbor then False
     else isSource_loop currentBand previousBand rest)"

definition isSource :: "AlignmentGraph \<Rightarrow> nat \<Rightarrow> Band \<Rightarrow> Band \<Rightarrow> bool" where
  "isSource g nodeIndex currentBand previousBand =
    isSource_loop currentBand previousBand (inNeighbors g nodeIndex)"

text \<open>
  \<open>getEq\<close>: a graph character other than A, T, C, G trips \<open>assert(false)\<close>; with assertions
  compiled out the function returns 0.
\<close>

definition getEq :: "AlignmentGraph \<Rightarrow> Word \<Rightarrow> Word \<Rightarrow> Word \<Rightarrow> Word \<Rightarrow> nat \<Rightarrow> Word" where
  "getEq g BA BT BC BG w =
    (let c = nodeSequences g w
     in if c = CHR ''A'' then BA
        else if c = CHR ''T'' then BT
        else if c = CHR ''C'' then BC
        else if c = CHR ''G'' then BG
        else 0)"

record NodeStartState =
  ns_previous :: WordSlice
  ns_previousUp :: WordSlice
  ns_foundOne :: bool
  ns_foundOneUp :: bool

definition getNodeStartSlice_step ::
  "NodeSlice \<Rightarrow> NodeSlice \<Rightarrow> Band \<Rightarrow> Band \<Rightarrow> nat \<Rightarrow> NodeStartState \<Rightarrow> NodeStartState" where
  "getNodeStartSlice_step previousSlice currentSlice currentBand previousBand neighbor st =
    (let st =
           (if previousBand neighbor
            then (if \<not> ns_foundOneUp st
                  then st\<lparr>ns_previousUp := last (previousSlice neighbor), ns_foundOneUp := True\<rparr>
                  else st\<lparr>ns_previousUp :=
                            mergeTwoSlices (ns_previousUp st) (last (previousSlice neighbor))\<rparr>)
            else st);
         st =
           (if previousBand neighbor \<and> \<not> currentBand neighbor
            then (if \<not> ns_foundOne st
                  then st\<lparr>ns_previous :=
                            getSourceSliceFromScore (scoreEnd (last (previousSlice neighbor))),
                          ns_foundOne := True\<rparr>
                  else st\<lparr>ns_previous :=
                            mergeTwoSlices (ns_previous st)
                              (getSourceSliceFromScore
                                 (scoreEnd (last (previousSlice neighbor))))\<rparr>)
            else st)
     in if \<not> currentBand neighbor then st
        else if \<not> ns_foundOne st
          then st\<lparr>ns_previous := last (currentSlice neighbor), ns_foundOne := True\<rparr>
        else st\<lparr>ns_previous := mergeTwoSlices (ns_previous st) (last (currentSlice neighbor))\<rparr>)"

definition getNodeStartSlice ::
  "AlignmentGraph \<Rightarrow> Word \<Rightarrow> nat \<Rightarrow> NodeSlice \<Rightarrow> NodeSlice \<Rightarrow> Band \<Rightarrow> Band \<Rightarrow> bool \<Rightarrow> WordSlice" where
  "getNodeStartSlice g Eq nodeIndex previousSlice currentSlice currentBand previousBand previousEq =
    (let st = fold (getNodeStartSlice_step previousSlice currentSlice currentBand previousBand)
                (inNeighbors g nodeIndex)
                \<lparr>ns_previous = defaultWordSlice, ns_previousUp = defaultWordSlice,
                 ns_foundOne = False, ns_foundOneUp = False\<rparr>
     in getNextSlice Eq (ns_previous st) (ns_foundOneUp st) previousEq (ns_previousUp st))"

record NodeCalculationResult =
  minScore :: int
  minScoreIndex :: nat
  cellsProcessed :: nat

definition firstZeroForced :: "Band \<Rightarrow> Band \<Rightarrow> nat \<Rightarrow> WordSlice \<Rightarrow> Word \<Rightarrow> bool" where
  "firstZeroForced previousBand currentBand neighborNodeIndex neighborSlice currentEq =
    (if previousBand neighborNodeIndex \<and> currentBand neighborNodeIndex
     then (if VN neighborSlice AND 1 \<noteq> 0 then True
           else if \<not> (VP neighborSlice AND 1 \<noteq> 0) \<and> \<not> (VN neighborSlice AND 1 \<noteq> 0)
                   \<and> \<not> (currentEq AND 1 \<noteq> 0) then True
           else False)
     else if previousBand neighborNodeIndex \<and> \<not> currentBand neighborNodeIndex then False
     else True)"

text \<open>
  A score (signed) is compared with the row \<open>j\<close> (a \<open>size_t\<close>) after conversion to unsigned,
  so a negative score compares as greater than every row.
\<close>

definition scoreAboveRow :: "int \<Rightarrow> nat \<Rightarrow> bool" where
  "scoreAboveRow score j = (score < 0 \<or> int j < score)"

text \<open>
  The two clamps applied to every freshly computed cell: against the same cell of the previous
  column block when the node was in the previous band, and against the all-insert path.
\<close>

definition clampSlice :: "nat \<Rightarrow> bool \<Rightarrow> WordSlice \<Rightarrow> WordSlice \<Rightarrow> WordSlice" where
  "clampSlice j inPreviousBand oldCell s =
    (let s = (if inPreviousBand \<and> scoreBeforeStart s > scoreEnd oldCell
              then mergeTwoSlices (getSourceSliceFromScore (scoreEnd oldCell)) s else s)
     in if scoreAboveRow (scoreBeforeStart s) j
        then mergeTwoSlices (getSourceSliceWithoutBefore j) s else s)"

text \<open>
  The slice computed for character \<open>w \<ge> 1\<close> of node \<open>i\<close>, as a function of the equality mask
  handed to \<open>getNextSlice\<close>; \<open>oldSlice\<close> is the node's vector of the previous column block
  when the node was in the previous band and the vector being filled otherwise.
\<close>

definition calculateNode_cell ::
  "AlignmentGraph \<Rightarrow> nat \<Rightarrow> nat \<Rightarrow> string \<Rightarrow> Band \<Rightarrow> WordSlice list \<Rightarrow> WordSlice list \<Rightarrow> nat \<Rightarrow> Word
    \<Rightarrow> WordSlice" where
  "calculateNode_cell g i j sequence previousBand slice0 oldSlice w Eq =
    clampSlice j (previousBand i) (oldSlice ! w)
      (getNextSlice Eq (slice0 ! (w - 1)) (previousBand i)
         (j = 0 \<or> nodeSequences g (nodeStart g i + w) = sequence ! (j - 1))
         (oldSlice ! (w - 1)))"

text \<open>
  One iteration of the loop over the characters \<open>1 \<le> w\<close> of the node. The source evaluates
  \<open>firstZeroForced\<close> into the local \<open>forceFirstHorizontalPositive\<close>, which is not read again.
\<close>

definition calculateNode_char ::
  "AlignmentGraph \<Rightarrow> nat \<Rightarrow> nat \<Rightarrow> string \<Rightarrow> Word \<Rightarrow> Word \<Rightarrow> Word \<Rightarrow> Word \<Rightarrow> NodeSlice \<Rightarrow> Band \<Rightarrow> Band
    \<Rightarrow> nat \<Rightarrow> WordSlice list \<times> NodeCalculationResult \<Rightarrow> WordSlice list \<times> NodeCalculationResult" where
  "calculateNode_char g i j sequence BA BT BC BG previousSlice currentBand previousBand w st =
    (let (slice0, result) = st;
         oldSlice = (if previousBand i then previousSlice i else slice0);
         Eq = getEq g BA BT BC BG (nodeStart g i + w);
         forceFirstHorizontalPositive =
           firstZeroForced previousBand currentBand i (slice0 ! (w - 1)) Eq;
         cell = calculateNode_cell g i j sequence previousBand slice0 oldSlice w Eq;
         result =
           (if scoreEnd cell \<le> minScore result
            then result\<lparr>minScore := scoreEnd cell, minScoreIndex := nodeStart g i + w\<rparr>
            else result)
     in (slice0[w := cell], result))"

definition calculateNode_first ::
  "AlignmentGraph \<Rightarrow> nat \<Rightarrow> nat \<Rightarrow> string \<Rightarrow> Word \<Rightarrow> Word \<Rightarrow> Word \<Rightarrow> Word \<Rightarrow> NodeSlice \<Rightarrow> NodeSlice \<Rightarrow> Band
    \<Rightarrow> Band \<Rightarrow> bool \<Rightarrow> WordSlice" where
  "calculateNode_first g i j sequence BA BT BC BG currentSlice previousSlice currentBand
      previousBand forceSource =
    (if forceSource \<or> isSource g i currentBand previousBand
     then (if previousBand i then getSourceSlice i previousSlice
           else getSourceSliceWithoutBefore j)
     else clampSlice j (previousBand i)
            ((if previousBand i then previousSlice i else currentSlice i) ! 0)
            (getNodeStartSlice g (getEq g BA BT BC BG (nodeStart g i)) i previousSlice
               currentSlice currentBand previousBand
               (j = 0 \<or> nodeSequences g (nodeStart g i) = sequence ! (j - 1))))"

text \<open>
  \<open>calculateNode\<close> fills the vector of node \<open>i\<close> in \<open>currentSlice\<close> and returns the minimum
  \<open>scoreEnd\<close> in the node with its position; \<open>scoreMax\<close> stands for
  \<open>std::numeric_limits<ScoreType>::max()\<close>.
\<close>

definition calculateNode ::
  "int \<Rightarrow> AlignmentGraph \<Rightarrow> nat \<Rightarrow> nat \<Rightarrow> string \<Rightarrow> Word \<Rightarrow> Word \<Rightarrow> Word \<Rightarrow> Word \<Rightarrow> NodeSlice \<Rightarrow> NodeSlice
    \<Rightarrow> Band \<Rightarrow> Band \<Rightarrow> bool \<Rightarrow> NodeCalculationResult \<times> NodeSlice" where
  "calculateNode scoreMax g i j sequence BA BT BC BG currentSlice previousSlice currentBand
      previousBand forceSource =
    (let first = calculateNode_first g i j sequence BA BT BC BG currentSlice previousSlice
                   currentBand previousBand forceSource;
         slice0 = (currentSlice i)[0 := first];
         result = \<lparr>minScore = scoreMax, minScoreIndex = 0, cellsProcessed = 0\<rparr>;
         result =
           (if scoreEnd first < minScore result
            then result\<lparr>minScore := scoreEnd first, minScoreIndex := nodeStart g i\<rparr>
            else result);
         (slice0, result) =
           fold (calculateNode_char g i j sequence BA BT BC BG previousSlice currentBand
                   previousBand)
             [1..<nodeEnd g i - nodeStart g i] (slice0, result)
     in (result\<lparr>cellsProcessed := (nodeEnd g i - nodeStart g i) * WordSize\<rparr>,
         currentSlice(i := slice0)))"

section \<open>The column sweep\<close>

record MatrixSlice =
  minScorePerWordSlice :: "int list"
  minScoreIndexPerWordSlice :: "nat list"
  ms_cellsProcessed :: nat

text \<open>
  The equality bitvectors of one column: bit \<open>i\<close> of \<open>BA\<close> is set when read character
  \<open>j + i\<close> can stand for an A, and so on (IUPAC codes, in either case). A character outside
  the table trips \<open>assert(false)\<close> and sets no bit.
\<close>

definition charClasses :: "char \<Rightarrow> bool \<times> bool \<times> bool \<times> bool" where
  "charClasses c =
    (if c = CHR ''A'' \<or> c = CHR ''a'' then (True, False, False, False)
     else if c = CHR ''T'' \<or> c = CHR ''t'' then (False, True, False, False)
     else if c = CHR ''C'' \<or> c = CHR ''c'' then (False, False, True, False)
     else if c = CHR ''G'' \<or> c = CHR ''g'' then (False, False, False, True)
     else if c = CHR ''N'' \<or> c = CHR ''n'' then (True, True, True, True)
     else if c = CHR ''R'' \<or> c = CHR ''r'' then (True, False, False, True)
     else if c = CHR ''Y'' \<or> c = CHR ''y'' then (False, True, True, False)
     else if c = CHR ''K'' \<or> c = CHR ''k'' then (False, True, False, True)
     else if c = CHR ''M'' \<or> c = CHR ''m'' then (True, False, True, False)
     else if c = CHR ''S'' \<or> c = CHR ''s'' then (False, False, True, True)
     else if c = CHR ''W'' \<or> c = CHR ''w'' then (True, True, False, False)
     else if c = CHR ''B'' \<or> c = CHR ''b'' then (False, True, True, True)
     else if c = CHR ''D'' \<or> c = CHR ''d'' then (True, True, False, True)
     else if c = CHR ''H'' \<or> c = CHR ''h'' then (True, True, True, False)
     else if c = CHR ''V'' \<or> c = CHR ''v'' then (True, False, True, True)
     else (False, False, False, False))"

definition equalityMasks_step ::
  "string \<Rightarrow> nat \<Rightarrow> nat \<Rightarrow> Word \<times> Word \<times> Word \<times> Word \<Rightarrow> Word \<times> Word \<times> Word \<times> Word" where
  "equalityMasks_step sequence j i m =
    (if j + i < length sequence
     then (let (BA, BT, BC, BG) = m;
               (a, t, c, g) = charClasses (sequence ! (j + i));
               bitmask = push_bit i 1
           in (if a then BA OR bitmask else BA, if t then BT OR bitmask else BT,
               if c then BC OR bitmask else BC, if g then BG OR bitmask else BG))
     else m)"

definition equalityMasks :: "string \<Rightarrow> nat \<Rightarrow> Word \<times> Word \<times> Word \<times> Word" where
  "equalityMasks sequence j =
    fold (equalityMasks_step sequence j) [0..<WordSize] (AllZeros, AllZeros, AllZeros, AllZeros)"

definition getBandOrder :: "AlignmentGraph \<Rightarrow> Band \<Rightarrow> nat list \<times> nat list" where
  "getBandOrder g currentBand =
    (filter currentBand [firstInOrder g..<nodeCount g], filter currentBand [0..<firstInOrder g])"

text \<open>
  Two steps of a column are parameters of the model. \<open>projectForwardAndExpandBand\<close> derives
  the dynamic band from the previous column's minimum position through
  \<open>AlignmentGraph::ProjectForward\<close>, and the body of \<open>cutCycles\<close> pre-evaluates the feedback
  cuts read from \<open>AlignmentGraph::cuts\<close>; both members are declared outside the file. The former returns the
  band with its in-order and out-of-order node lists, the latter the updated store.
  \<open>env_scoreMax\<close> and \<open>env_lengthMax\<close> are the \<open>max()\<close> of \<open>ScoreType\<close> and \<open>LengthType\<close>.
\<close>

record SweepEnv =
  env_scoreMax :: int
  env_lengthMax :: nat
  env_projectForwardAndExpandBand :: "Band \<Rightarrow> nat \<Rightarrow> nat \<Rightarrow> Band \<times> nat list \<times> nat list"
  env_cutCycles ::
    "nat \<Rightarrow> string \<Rightarrow> Word \<times> Word \<times> Word \<times> Word \<Rightarrow> NodeSlice \<Rightarrow> NodeSlice \<Rightarrow> Band \<Rightarrow> Band \<Rightarrow> nat list
      \<Rightarrow> NodeSlice"

text \<open>
  \<open>cutCycles\<close> returns at once when the graph has no feedback cut (\<open>firstInOrder = 0\<close>).
\<close>

definition cutCycles ::
  "SweepEnv \<Rightarrow> AlignmentGraph \<Rightarrow> nat \<Rightarrow> string \<Rightarrow> Word \<times> Word \<times> Word \<times> Word \<Rightarrow> NodeSlice \<Rightarrow> NodeSlice \<Rightarrow> Band
    \<Rightarrow> Band \<Rightarrow> nat list \<Rightarrow> NodeSlice" where
  "cutCycles env g j sequence masks currentSlice previousSlice currentBand previousBand
      bandOrderOutOfOrder =
    (if firstInOrder g = 0 then currentSlice
     else env_cutCycles env j sequence masks currentSlice previousSlice currentBand previousBand
            bandOrderOutOfOrder)"

text \<open>
  The update of the running column minimum after one node. In the innermost branch the source
  writes \<open>currentMinimumIndex == graph.nodeStart[neighbor];\<close>, a comparison whose value is
  discarded.
\<close>

definition outNeighborProbe ::
  "AlignmentGraph \<Rightarrow> string \<Rightarrow> nat \<Rightarrow> NodeCalculationResult \<Rightarrow> nat \<Rightarrow> int \<times> nat \<Rightarrow> int \<times> nat" where
  "outNeighborProbe g sequence j nodeCalc neighbor cur =
    (let (currentMinimumScore, currentMinimumIndex) = cur
     in if sequence ! (j + WordSize - 1) = nodeSequences g (nodeStart g neighbor)
        then (let discarded = (currentMinimumIndex = nodeStart g neighbor)
              in (minScore nodeCalc - 1, currentMinimumIndex))
        else (currentMinimumScore, currentMinimumIndex))"

definition updateColumnMinimum ::
  "AlignmentGraph \<Rightarrow> string \<Rightarrow> nat \<Rightarrow> nat \<Rightarrow> NodeCalculationResult \<Rightarrow> WordSlice \<Rightarrow> int \<times> nat \<Rightarrow> int \<times> nat" where
  "updateColumnMinimum g sequence j i nodeCalc lastCell cur =
    (let (currentMinimumScore, currentMinimumIndex) = cur;
         (currentMinimumScore, currentMinimumIndex) =
           (if minScore nodeCalc < currentMinimumScore
            then (minScore nodeCalc, minScoreIndex nodeCalc)
            else (currentMinimumScore, currentMinimumIndex))
     in if minScore nodeCalc \<le> currentMinimumScore
           \<and> minScoreIndex nodeCalc = nodeEnd g i - 1
           \<and> VP lastCell AND lastBitMask \<noteq> 0
        then fold (outNeighborProbe g sequence j nodeCalc) (outNeighbors g i)
               (currentMinimumScore, currentMinimumIndex)
        else (currentMinimumScore, currentMinimumIndex))"

record ColumnState =
  col_currentSlice :: NodeSlice
  col_minimumScore :: int
  col_minimumIndex :: nat
  col_cellsProcessed :: nat

definition sweepNode ::
  "SweepEnv \<Rightarrow> AlignmentGraph \<Rightarrow> string \<Rightarrow> nat \<Rightarrow> Word \<times> Word \<times> Word \<times> Word \<Rightarrow> NodeSlice \<Rightarrow> Band \<Rightarrow> Band
    \<Rightarrow> nat \<Rightarrow> ColumnState \<Rightarrow> ColumnState" where
  "sweepNode env g sequence j masks previousSlice currentBand previousBand i cs =
    (let (BA, BT, BC, BG) = masks;
         (nodeCalc, currentSlice) =
           calculateNode (env_scoreMax env) g i j sequence BA BT BC BG (col_currentSlice cs)
             previousSlice currentBand previousBand False;
         (score, idx) =
           updateColumnMinimum g sequence j i nodeCalc (last (currentSlice i))
             (col_minimumScore cs, col_minimumIndex cs)
     in \<lparr>col_currentSlice = currentSlice, col_minimumScore = score, col_minimumIndex = idx,
         col_cellsProcessed = col_cellsProcessed cs + cellsProcessed nodeCalc\<rparr>)"

record SweepState =
  sw_result :: MatrixSlice
  sw_previousSlice :: NodeSlice
  sw_previousMinimumIndex :: nat
  sw_currentBand :: Band
  sw_previousBand :: Band
  sw_previousBandOrder :: "nat list"
  sw_previousBandOrderOutOfOrder :: "nat list"

definition zeroNodes :: "AlignmentGraph \<Rightarrow> nat list \<Rightarrow> NodeSlice \<Rightarrow> NodeSlice" where
  "zeroNodes g nodes ns =
    fold (\<lambda>node ns. ns(node := replicate (nodeEnd g node - nodeStart g node)
                                  \<lparr>VP = 0, VN = 0, scoreEnd = 0, scoreBeforeStart = 0\<rparr>))
      nodes ns"

definition addNodes :: "AlignmentGraph \<Rightarrow> nat list \<Rightarrow> NodeSlice \<Rightarrow> NodeSlice" where
  "addNodes g nodes ns = fold (\<lambda>i. addNode i (nodeEnd g i - nodeStart g i)) nodes ns"

definition sweepColumn ::
  "SweepEnv \<Rightarrow> AlignmentGraph \<Rightarrow> string \<Rightarrow> nat \<Rightarrow> Band list \<Rightarrow> nat \<Rightarrow> SweepState \<Rightarrow> SweepState" where
  "sweepColumn env g sequence dynamicWidth startBand j st =
    (let masks = equalityMasks sequence j;
         sliceIdx = j div WordSize;
         (currentBand, previousBand, bandOrder, bandOrderOutOfOrder, previousBandOrder,
          previousBandOrderOutOfOrder, previousSlice) =
           (if length startBand > sliceIdx
            then (let currentBand = startBand ! sliceIdx;
                      (bandOrder, bandOrderOutOfOrder) = getBandOrder g currentBand
                  in if sliceIdx = 0
                     then (currentBand, currentBand, bandOrder, bandOrderOutOfOrder, bandOrder,
                           bandOrderOutOfOrder,
                           zeroNodes g bandOrderOutOfOrder
                             (zeroNodes g bandOrder (sw_previousSlice st)))
                     else (currentBand, sw_currentBand st, bandOrder, bandOrderOutOfOrder,
                           sw_previousBandOrder st, sw_previousBandOrderOutOfOrder st,
                           sw_previousSlice st))
            else (let (currentBand, bandOrder, bandOrderOutOfOrder) =
                        env_projectForwardAndExpandBand env (sw_previousBand st)
                          (sw_previousMinimumIndex st) dynamicWidth
                  in (currentBand, sw_currentBand st, bandOrder, bandOrderOutOfOrder,
                      sw_previousBandOrder st, sw_previousBandOrderOutOfOrder st,
                      sw_previousSlice st)));
         currentSlice = addNodes g bandOrderOutOfOrder (addNodes g bandOrder emptyNodeSlice);
         currentSlice = cutCycles env g j sequence masks currentSlice previousSlice currentBand
                          previousBand bandOrderOutOfOrder;
         cs = \<lparr>col_currentSlice = currentSlice, col_minimumScore = env_scoreMax env,
               col_minimumIndex = env_lengthMax env,
               col_cellsProcessed = ms_cellsProcessed (sw_result st)\<rparr>;
         cs = fold (sweepNode env g sequence j masks previousSlice currentBand previousBand)
                bandOrder cs;
         cs = fold (sweepNode env g sequence j masks previousSlice currentBand previousBand)
                bandOrderOutOfOrder cs;
         previousBand =
           (\<lambda>node. if node \<in> set previousBandOrder \<or> node \<in> set previousBandOrderOutOfOrder
                   then False else previousBand node)
     in \<lparr>sw_result =
           \<lparr>minScorePerWordSlice = minScorePerWordSlice (sw_result st) @ [col_minimumScore cs],
            minScoreIndexPerWordSlice =
              minScoreIndexPerWordSlice (sw_result st) @ [col_minimumIndex cs],
            ms_cellsProcessed = col_cellsProcessed cs\<rparr>,
         sw_previousSlice = col_currentSlice cs,
         sw_previousMinimumIndex = col_minimumIndex cs,
         sw_currentBand = currentBand, sw_previousBand = previousBand,
         sw_previousBandOrder = bandOrder,
         sw_previousBandOrderOutOfOrder = bandOrderOutOfOrder\<rparr>)"

text \<open>
  The loop over the columns \<open>j = 0, 64, 128, \<dots> < sequence.size()\<close>. When the minimum of a
  column exceeds \<open>maxScore\<close>, one entry \<open>(sequence.size(), 0)\<close> is pushed for every later
  column and the loop is left.
\<close>

definition padRemaining :: "nat \<Rightarrow> nat \<Rightarrow> MatrixSlice \<Rightarrow> MatrixSlice" where
  "padRemaining sequenceSize remainingColumns r =
    r\<lparr>minScorePerWordSlice :=
        minScorePerWordSlice r @ replicate remainingColumns (int sequenceSize),
      minScoreIndexPerWordSlice := minScoreIndexPerWordSlice r @ replicate remainingColumns 0\<rparr>"

fun sweepColumns ::
  "SweepEnv \<Rightarrow> AlignmentGraph \<Rightarrow> string \<Rightarrow> nat \<Rightarrow> Band list \<Rightarrow> int \<Rightarrow> nat list \<Rightarrow> SweepState \<Rightarrow> MatrixSlice"
  where
  "sweepColumns env g sequence dynamicWidth startBand maxScore [] st = sw_result st"
| "sweepColumns env g sequence dynamicWidth startBand maxScore (j # js) st =
    (let st = sweepColumn env g sequence dynamicWidth startBand j st
     in if last (minScorePerWordSlice (sw_result st)) > maxScore
        then padRemaining (length sequence) (length js) (sw_result st)
        else sweepColumns env g sequence dynamicWidth startBand maxScore js st)"

definition columnStarts :: "nat \<Rightarrow> nat list" where
  "columnStarts sequenceSize =
    map (\<lambda>k. k * WordSize) [0..<(sequenceSize + WordSize - 1) div WordSize]"

definition getBitvectorSliceScoresAndFinalPosition ::
  "SweepEnv \<Rightarrow> AlignmentGraph \<Rightarrow> string \<Rightarrow> nat \<Rightarrow> Band list \<Rightarrow> nat \<Rightarrow> int \<Rightarrow> MatrixSlice" where
  "getBitvectorSliceScoresAndFinalPosition env g sequence dynamicWidth startBand dynamicRowStart
      maxScore =
    sweepColumns env g sequence dynamicWidth startBand maxScore (columnStarts (length sequence))
      \<lparr>sw_result = \<lparr>minScorePerWordSlice = [0], minScoreIndexPerWordSlice = [0],
                    ms_cellsProcessed = 0\<rparr>,
       sw_previousSlice = emptyNodeSlice,
       sw_previousMinimumIndex = env_lengthMax env,
       sw_currentBand = (\<lambda>node. False), sw_previousBand = (\<lambda>node. False),
       sw_previousBandOrder = [], sw_previousBandOrderOutOfOrder = []\<rparr>"

section \<open>Outcomes\<close>

text \<open>
  A call either returns, or runs into behaviour the language leaves undefined (reading
  \<open>back()\<close> of an empty vector, indexing out of range, falling off the end of a function),
  or, for the one loop whose number of iterations is not bounded by its input, runs out of
  the fuel given to the model.
\<close>

datatype 'a outcome = Returned 'a | Undefined | OutOfFuel

section \<open>Backtrace\<close>

text \<open>
  \<open>SparseBoolMatrix\<close>, the matrix of visited cells, is declared outside the file; it is
  modelled as the set of the positions that have been set.
\<close>

type_synonym MatrixPosition = "nat \<times> nat"

record ExpandoCell =
  position :: MatrixPosition
  backtraceIndex :: nat

record BacktraceState =
  bt_currentDistance :: int
  bt_visitedExpandos :: "ExpandoCell list"
  bt_currentDistanceQueue :: "ExpandoCell list"
  bt_currentDistancePlusOneQueue :: "ExpandoCell list"
  bt_visitedCells :: "MatrixPosition set"

datatype backtraceStep = Continue BacktraceState | Break BacktraceState | Abort

text \<open>
  \<open>std::string::operator[]\<close> is defined up to and including \<open>size()\<close>, where it yields the
  null character.
\<close>

definition charAt :: "string \<Rightarrow> nat \<Rightarrow> char option" where
  "charAt sequence k =
    (if k < length sequence then Some (sequence ! k)
     else if k = length sequence then Some (char_of (0::nat))
     else None)"

definition expandPredecessor ::
  "bool \<Rightarrow> nat \<Rightarrow> nat \<Rightarrow> nat \<Rightarrow> BacktraceState \<Rightarrow> BacktraceState" where
  "expandPredecessor charactersMatch u j backtraceIndexToCurrent st =
    (let st = st\<lparr>bt_currentDistancePlusOneQueue :=
                   bt_currentDistancePlusOneQueue st
                     @ [\<lparr>position = (u, j), backtraceIndex = backtraceIndexToCurrent\<rparr>]\<rparr>
     in if charactersMatch
        then st\<lparr>bt_currentDistanceQueue :=
                  bt_currentDistanceQueue st
                    @ [\<lparr>position = (u, j - 1), backtraceIndex = backtraceIndexToCurrent\<rparr>]\<rparr>
        else st\<lparr>bt_currentDistancePlusOneQueue :=
                  bt_currentDistancePlusOneQueue st
                    @ [\<lparr>position = (u, j - 1), backtraceIndex = backtraceIndexToCurrent\<rparr>]\<rparr>)"

definition backtraceInner_step ::
  "AlignmentGraph \<Rightarrow> string \<Rightarrow> int list \<Rightarrow> int \<Rightarrow> BacktraceState \<Rightarrow> backtraceStep" where
  "backtraceInner_step g sequence minScores scoreAtEnd st0 =
    (if bt_currentDistanceQueue st0 = [] \<and> bt_currentDistancePlusOneQueue st0 = [] then Abort
     else
      (let st = (if bt_currentDistanceQueue st0 = []
                 then st0\<lparr>bt_currentDistanceQueue := bt_currentDistancePlusOneQueue st0,
                          bt_currentDistancePlusOneQueue := [],
                          bt_currentDistance := bt_currentDistance st0 + 1\<rparr>
                 else st0);
           current = last (bt_currentDistanceQueue st);
           st = st\<lparr>bt_currentDistanceQueue := butlast (bt_currentDistanceQueue st)\<rparr>;
           w = fst (position current);
           j = snd (position current)
       in if j = 0
          then Break (st\<lparr>bt_visitedExpandos := bt_visitedExpandos st @ [current]\<rparr>)
          else
           (let sliceIndex = (j - 1) div WordSize
            in if sliceIndex \<ge> length minScores then Abort
               else if bt_currentDistance st > scoreAtEnd - minScores ! sliceIndex
                 then Continue st
               else if (w, j) \<in> bt_visitedCells st then Continue st
               else
                (case charAt sequence (j - 1) of
                   None \<Rightarrow> Abort
                 | Some readChar \<Rightarrow>
                    (let st = st\<lparr>bt_visitedCells := insert (w, j) (bt_visitedCells st),
                                 bt_visitedExpandos := bt_visitedExpandos st @ [current]\<rparr>;
                         nodeIndex = indexToNode g w;
                         backtraceIndexToCurrent = length (bt_visitedExpandos st) - 1;
                         st = st\<lparr>bt_currentDistancePlusOneQueue :=
                                   bt_currentDistancePlusOneQueue st
                                     @ [\<lparr>position = (w, j - 1),
                                         backtraceIndex = backtraceIndexToCurrent\<rparr>]\<rparr>;
                         charactersMatch =
                           (readChar = CHR ''N'' \<or> nodeSequences g w = readChar)
                     in if w = nodeStart g nodeIndex
                        then Continue
                               (fold (\<lambda>neighbor.
                                        expandPredecessor charactersMatch (nodeEnd g neighbor - 1) j
                                          backtraceIndexToCurrent)
                                  (inNeighbors g nodeIndex) st)
                        else Continue
                               (expandPredecessor charactersMatch (w - 1) j
                                  backtraceIndexToCurrent st))))))"

fun backtraceInner_loop ::
  "nat \<Rightarrow> AlignmentGraph \<Rightarrow> string \<Rightarrow> int list \<Rightarrow> int \<Rightarrow> BacktraceState \<Rightarrow> BacktraceState outcome"
  where
  "backtraceInner_loop 0 g sequence minScores scoreAtEnd st = OutOfFuel"
| "backtraceInner_loop (Suc fuel) g sequence minScores scoreAtEnd st =
    (case backtraceInner_step g sequence minScores scoreAtEnd st of
       Abort \<Rightarrow> Undefined
     | Break st' \<Rightarrow> Returned st'
     | Continue st' \<Rightarrow> backtraceInner_loop fuel g sequence minScores scoreAtEnd st')"

text \<open>
  Walking the backpointers from the last visited cell. The source asserts that every
  backpointer of a cell other than the first points to an earlier cell; the walk is defined
  as long as that holds.
\<close>

function backtraceInner_walk ::
  "ExpandoCell list \<Rightarrow> nat \<Rightarrow> MatrixPosition list \<Rightarrow> MatrixPosition list outcome" where
  "backtraceInner_walk visitedExpandos idx result =
    (if idx = 0 then Returned result
     else if idx < length visitedExpandos \<and> backtraceIndex (visitedExpandos ! idx) < idx
       then backtraceInner_walk visitedExpandos (backtraceIndex (visitedExpandos ! idx))
              (result @ [position (visitedExpandos ! idx)])
     else Undefined)"
  by pat_completeness auto
termination
  by (relation "measure (\<lambda>(v, idx, r). idx)") auto

definition backtraceInner ::
  "AlignmentGraph \<Rightarrow> nat \<Rightarrow> MatrixPosition \<Rightarrow> string \<Rightarrow> int list \<Rightarrow> (int \<times> MatrixPosition list) outcome"
  where
  "backtraceInner g fuel endPosition sequence minScores =
    (if minScores = [] then Undefined
     else
      (case backtraceInner_loop fuel g sequence minScores (last minScores)
              \<lparr>bt_currentDistance = 0, bt_visitedExpandos = [],
               bt_currentDistanceQueue = [\<lparr>position = endPosition, backtraceIndex = 0\<rparr>],
               bt_currentDistancePlusOneQueue = [], bt_visitedCells = {}\<rparr> of
         Returned st \<Rightarrow>
           (case backtraceInner_walk (bt_visitedExpandos st)
                   (length (bt_visitedExpandos st) - 1) [] of
              Returned trace \<Rightarrow> Returned (bt_currentDistance st, trace)
            | Undefined \<Rightarrow> Undefined
            | OutOfFuel \<Rightarrow> OutOfFuel)
       | Undefined \<Rightarrow> Undefined
       | OutOfFuel \<Rightarrow> OutOfFuel))"

definition backtrace ::
  "AlignmentGraph \<Rightarrow> nat \<Rightarrow> MatrixPosition \<Rightarrow> string \<Rightarrow> int list \<Rightarrow> (int \<times> MatrixPosition list) outcome"
  where
  "backtrace g fuel endPosition sequence minScores =
    backtraceInner g fuel endPosition sequence minScores"

section \<open>Correctness estimate and the largest correct block\<close>

record BlockState =
  blk_thisBlock :: nat
  blk_maxBlockSize :: nat
  blk_maxBlockEnd :: nat

definition getLargestContiguousBlock_step :: "bool list \<Rightarrow> nat \<Rightarrow> BlockState \<Rightarrow> BlockState" where
  "getLargestContiguousBlock_step vec i st =
    (if vec ! i then st\<lparr>blk_thisBlock := blk_thisBlock st + 1\<rparr>
     else (let st = (if blk_thisBlock st > blk_maxBlockSize st
                     then st\<lparr>blk_maxBlockEnd := i - 1, blk_maxBlockSize := blk_thisBlock st - 1\<rparr>
                     else st)
           in st\<lparr>blk_thisBlock := 0\<rparr>))"

definition getLargestContiguousBlock :: "bool list \<Rightarrow> nat \<times> nat" where
  "getLargestContiguousBlock vec =
    (let st = fold (getLargestContiguousBlock_step vec) [0..<length vec]
                \<lparr>blk_thisBlock = 0, blk_maxBlockSize = 0, blk_maxBlockEnd = 0\<rparr>;
         st = (if blk_thisBlock st > blk_maxBlockSize st
               then st\<lparr>blk_maxBlockEnd := length vec - 1, blk_maxBlockSize := blk_thisBlock st - 1\<rparr>
               else st)
     in (blk_maxBlockEnd st - blk_maxBlockSize st, blk_maxBlockEnd st))"

text \<open>
  The Viterbi estimate works on exact rationals over unbounded integers. \<open>factorial\<close>
  multiplies \<open>2, \<dots>, n\<close>; \<open>powr\<close> squares recursively and has no branch for a negative
  exponent, where control reaches the end of the function. The source's \<open>choose\<close> and
  \<open>powr\<close> are \<open>choose_int\<close> and \<open>powr_rat\<close> here.
\<close>

definition factorial :: "int \<Rightarrow> int" where
  "factorial n = fold (\<lambda>i r. r * i) (map int [2..<nat (n + 1)]) 1"

definition choose_int :: "int \<Rightarrow> int \<Rightarrow> int" where
  "choose_int n k = (factorial n div factorial k) div factorial (n - k)"

function powr_rat :: "rat \<Rightarrow> int \<Rightarrow> rat option" where
  "powr_rat base exponent =
    (if exponent = 0 then Some 1
     else if exponent = 1 then Some base
     else if exponent < 0 then None
     else if exponent mod 2 = 0
       then (case powr_rat base (exponent div 2) of None \<Rightarrow> None | Some part \<Rightarrow> Some (part * part))
     else (case powr_rat base (exponent div 2) of None \<Rightarrow> None
           | Some part \<Rightarrow> Some (part * part * base)))"
  by pat_completeness auto
termination
  by (relation "measure (\<lambda>(b, e). nat e)") auto

record ViterbiState =
  vit_correctProbability :: rat
  vit_falseProbability :: rat
  vit_falseFromCorrectBacktrace :: "bool list"
  vit_correctFromCorrectBacktrace :: "bool list"

definition estimateCorrectAlignmentViterbi_step ::
  "int list \<Rightarrow> nat \<Rightarrow> ViterbiState outcome \<Rightarrow> ViterbiState outcome" where
  "estimateCorrectAlignmentViterbi_step scores i outc =
    (case outc of
       Returned st \<Rightarrow>
        (let correctMismatchProbability = (15 / 100 :: rat);
             falseMismatchProbability = (50 / 100 :: rat);
             falseToCorrectTransitionProbability = (1 / 100 :: rat);
             correctToFalseTransitionProbability = (1 / 100 :: rat);
             correctProbability = vit_correctProbability st;
             falseProbability = vit_falseProbability st;
             scorediff = scores ! i - scores ! (i - 1);
             correctFromCorrect =
               (correctProbability * (1 - correctToFalseTransitionProbability)
                  \<ge> falseProbability * falseToCorrectTransitionProbability);
             falseFromCorrect =
               (correctProbability * correctToFalseTransitionProbability
                  \<ge> falseProbability * (1 - falseToCorrectTransitionProbability));
             newCorrectProbability =
               max (correctProbability * (1 - correctToFalseTransitionProbability))
                   (falseProbability * falseToCorrectTransitionProbability);
             newFalseProbability =
               max (correctProbability * correctToFalseTransitionProbability)
                   (falseProbability * (1 - falseToCorrectTransitionProbability));
             chooseresult = choose_int (int WordSize) scorediff
         in case (powr_rat correctMismatchProbability scorediff,
                  powr_rat (1 - correctMismatchProbability) (int WordSize - scorediff),
                  powr_rat falseMismatchProbability scorediff,
                  powr_rat (1 - falseMismatchProbability) (int WordSize - scorediff)) of
              (Some pc, Some qc, Some pf, Some qf) \<Rightarrow>
                (let correctMultiplier = of_int chooseresult * pc * qc;
                     falseMultiplier = of_int chooseresult * pf * qf;
                     correctProbability = newCorrectProbability * correctMultiplier;
                     falseProbability = newFalseProbability * falseMultiplier;
                     normalizer = correctProbability + falseProbability
                 in if normalizer = 0 then Undefined
                    else Returned
                      \<lparr>vit_correctProbability = correctProbability / normalizer,
                       vit_falseProbability = falseProbability / normalizer,
                       vit_falseFromCorrectBacktrace =
                         vit_falseFromCorrectBacktrace st @ [falseFromCorrect],
                       vit_correctFromCorrectBacktrace =
                         vit_correctFromCorrectBacktrace st @ [correctFromCorrect]\<rparr>)
            | _ \<Rightarrow> Undefined)
     | Undefined \<Rightarrow> Undefined
     | OutOfFuel \<Rightarrow> OutOfFuel)"

definition estimateCorrectAlignmentViterbi_label ::
  "ViterbiState \<Rightarrow> nat \<Rightarrow> bool list \<times> bool \<Rightarrow> bool list \<times> bool" where
  "estimateCorrectAlignmentViterbi_label st i acc =
    (let (result, currentCorrect) = acc
     in (result[i := currentCorrect],
         if currentCorrect then vit_correctFromCorrectBacktrace st ! i
         else vit_falseFromCorrectBacktrace st ! i))"

definition estimateCorrectAlignmentViterbi :: "int list \<Rightarrow> bool list outcome" where
  "estimateCorrectAlignmentViterbi scores =
    (if scores = [] then Undefined
     else
      (case fold (estimateCorrectAlignmentViterbi_step scores) [1..<length scores]
              (Returned \<lparr>vit_correctProbability = 30 / 100, vit_falseProbability = 70 / 100,
                         vit_falseFromCorrectBacktrace = [],
                         vit_correctFromCorrectBacktrace = []\<rparr>) of
         Returned st \<Rightarrow>
           Returned
             (fst (fold (estimateCorrectAlignmentViterbi_label st) (rev [0..<length scores - 1])
                     (replicate (length scores - 1) False,
                      vit_correctProbability st > vit_falseProbability st)))
       | Undefined \<Rightarrow> Undefined
       | OutOfFuel \<Rightarrow> OutOfFuel))"

definition estimateCorrectnessAndBacktraceBiggestPart ::
  "AlignmentGraph \<Rightarrow> nat \<Rightarrow> string \<Rightarrow> int list \<Rightarrow> nat list \<Rightarrow> (int \<times> MatrixPosition list) outcome"
  where
  "estimateCorrectnessAndBacktraceBiggestPart g fuel sequence minScores minScoreIndices =
    (case estimateCorrectAlignmentViterbi minScores of
       Returned correctParts \<Rightarrow>
        (let (start, end) = getLargestContiguousBlock correctParts
         in if end = start then Returned (int (length sequence), [])
            else
             (let endPos = (minScoreIndices ! (end + 1), (end - start + 1) * WordSize);
                  newseq = take ((end - start + 1) * WordSize) (drop (start * WordSize) sequence);
                  partials = map (\<lambda>i. minScores ! i) [start..<end + 2]
              in backtrace g fuel endPos newseq partials))
     | Undefined \<Rightarrow> Undefined
     | OutOfFuel \<Rightarrow> OutOfFuel)"

section \<open>The full-band driver\<close>

text \<open>
  The score ceiling is written \<open>sequence.size() * 0.4\<close> in floating point. For a length below
  \<open>2 ^ 50\<close> the product is exact enough that an integer score exceeds it exactly when five
  times the score exceeds twice the length, and that its conversion to \<open>ScoreType\<close> is the
  integer quotient of twice the length by five; the model uses these integer forms.
\<close>

definition ceilingExceeded :: "int \<Rightarrow> nat \<Rightarrow> bool" where
  "ceilingExceeded score sequenceSize = (5 * score > 2 * int sequenceSize)"

definition ceilingAsScore :: "nat \<Rightarrow> int" where
  "ceilingAsScore sequenceSize = (2 * int sequenceSize) div 5"

definition paddingOf :: "nat \<Rightarrow> nat" where
  "paddingOf sequenceSize = (WordSize - sequenceSize mod WordSize) mod WordSize"

definition padSequence :: "string \<Rightarrow> string" where
  "padSequence sequence = sequence @ replicate (paddingOf (length sequence)) CHR ''N''"

function dropPaddedTail :: "nat \<Rightarrow> MatrixPosition list \<Rightarrow> MatrixPosition list option" where
  "dropPaddedTail limit trace =
    (if trace = [] then None
     else if snd (last trace) \<ge> limit then dropPaddedTail limit (butlast trace)
     else Some trace)"
  by pat_completeness auto
termination
  by (relation "measure (\<lambda>(l, t). length t)") auto

definition getFullBand :: "AlignmentGraph \<Rightarrow> nat \<Rightarrow> nat \<Rightarrow> Band list" where
  "getFullBand g sequenceSize dynamicRowStart =
    replicate (dynamicRowStart div WordSize) (\<lambda>node. node < nodeCount g)"

definition getBacktrace ::
  "SweepEnv \<Rightarrow> AlignmentGraph \<Rightarrow> nat \<Rightarrow> string \<Rightarrow> nat \<Rightarrow> nat \<Rightarrow> Band list
    \<Rightarrow> (int \<times> MatrixPosition list \<times> nat) outcome" where
  "getBacktrace env g fuel sequence0 dynamicWidth dynamicRowStart startBand =
    (let padding = paddingOf (length sequence0);
         sequence = padSequence sequence0;
         slice0 = getBitvectorSliceScoresAndFinalPosition env g sequence dynamicWidth startBand
                    dynamicRowStart (ceilingAsScore (length sequence))
     in if ceilingExceeded (last (minScorePerWordSlice slice0)) (length sequence)
        then Returned (env_scoreMax env, [], ms_cellsProcessed slice0)
        else
         (case estimateCorrectnessAndBacktraceBiggestPart g fuel sequence
                 (minScorePerWordSlice slice0) (minScoreIndexPerWordSlice slice0) of
            Returned backtraceresult \<Rightarrow>
              (case dropPaddedTail (length sequence - padding) (snd backtraceresult) of
                 None \<Rightarrow> Undefined
               | Some trace \<Rightarrow>
                   Returned (last (minScorePerWordSlice slice0), trace, ms_cellsProcessed slice0))
          | Undefined \<Rightarrow> Undefined
          | OutOfFuel \<Rightarrow> OutOfFuel))"

text \<open>
  The output record. \<open>vg::Alignment\<close> is a protocol-buffer message declared elsewhere; the
  model keeps the fields the aligner writes. \<open>alignmentScoreMax\<close> stands for the largest value
  of the message's score field, and elapsed times are left out.
\<close>

record Edit =
  edit_fromLength :: nat
  edit_toLength :: nat
  edit_sequence :: string

record Mapping =
  map_rank :: nat
  map_nodeId :: int
  map_isReverse :: bool
  map_offset :: nat
  map_edits :: "Edit list"

record Alignment =
  al_name :: string
  al_score :: int
  al_sequence :: string
  al_path :: "Mapping list"

record AlignmentResult =
  alignment :: Alignment
  alignmentFailed :: bool
  res_cellsProcessed :: nat

definition emptyAlignment :: "int \<Rightarrow> nat \<Rightarrow> AlignmentResult" where
  "emptyAlignment alignmentScoreMax cells =
    \<lparr>alignment = \<lparr>al_name = [], al_score = alignmentScoreMax, al_sequence = [], al_path = []\<rparr>,
     alignmentFailed = True, res_cellsProcessed = cells\<rparr>"

fun skipDummyStart :: "AlignmentGraph \<Rightarrow> MatrixPosition list \<Rightarrow> nat \<Rightarrow> nat option" where
  "skipDummyStart g [] pos = None"
| "skipDummyStart g (p # rest) pos =
    (if indexToNode g (fst p) = dummyNodeStart g then skipDummyStart g rest (pos + 1)
     else Some pos)"

record PathState =
  ps_done :: "Mapping list"
  ps_current :: Mapping
  ps_oldNode :: nat
  ps_btNodeStart :: MatrixPosition
  ps_btNodeEnd :: MatrixPosition
  ps_rank :: nat

fun traceToAlignment_loop ::
  "AlignmentGraph \<Rightarrow> string \<Rightarrow> MatrixPosition list \<Rightarrow> PathState \<Rightarrow> PathState" where
  "traceToAlignment_loop g sequence [] st = st"
| "traceToAlignment_loop g sequence (p # rest) st =
    (if indexToNode g (fst p) = dummyNodeEnd g then st
     else if indexToNode g (fst p) = ps_oldNode st
       then traceToAlignment_loop g sequence rest (st\<lparr>ps_btNodeEnd := p\<rparr>)
     else
      (let edit = \<lparr>edit_fromLength = fst (ps_btNodeEnd st) - fst (ps_btNodeStart st) + 1,
                   edit_toLength = snd (ps_btNodeEnd st) - snd (ps_btNodeStart st) + 1,
                   edit_sequence =
                     take (snd (ps_btNodeEnd st) - snd (ps_btNodeStart st) + 1)
                       (drop (snd (ps_btNodeStart st)) sequence)\<rparr>;
           finished = (ps_current st)\<lparr>map_edits := map_edits (ps_current st) @ [edit]\<rparr>;
           oldNode = indexToNode g (fst p)
       in traceToAlignment_loop g sequence rest
            \<lparr>ps_done = ps_done st @ [finished],
             ps_current = \<lparr>map_rank = ps_rank st + 1, map_nodeId = nodeIDs g oldNode,
                           map_isReverse = isReverse g oldNode, map_offset = 0,
                           map_edits = []\<rparr>,
             ps_oldNode = oldNode, ps_btNodeStart = p, ps_btNodeEnd = p,
             ps_rank = ps_rank st + 1\<rparr>))"

definition traceToAlignment ::
  "int \<Rightarrow> AlignmentGraph \<Rightarrow> string \<Rightarrow> string \<Rightarrow> int \<Rightarrow> MatrixPosition list \<Rightarrow> nat \<Rightarrow> AlignmentResult"
  where
  "traceToAlignment alignmentScoreMax g seq_id sequence score trace cells =
    (if trace = []
     then \<lparr>alignment = \<lparr>al_name = seq_id, al_score = score, al_sequence = sequence,
                         al_path = []\<rparr>,
           alignmentFailed = True, res_cellsProcessed = cells\<rparr>
     else
      (case skipDummyStart g trace 0 of
         None \<Rightarrow> emptyAlignment alignmentScoreMax cells
       | Some pos \<Rightarrow>
          (let oldNode = indexToNode g (fst (trace ! pos))
           in if oldNode = dummyNodeEnd g then emptyAlignment alignmentScoreMax cells
              else
               (let st = traceToAlignment_loop g sequence (drop pos trace)
                           \<lparr>ps_done = [],
                            ps_current = \<lparr>map_rank = 0, map_nodeId = nodeIDs g oldNode,
                                          map_isReverse = isReverse g oldNode,
                                          map_offset = fst (trace ! pos) - nodeStart g oldNode,
                                          map_edits = []\<rparr>,
                            ps_oldNode = oldNode, ps_btNodeStart = trace ! pos,
                            ps_btNodeEnd = trace ! pos, ps_rank = 0\<rparr>;
                    edit = \<lparr>edit_fromLength = fst (ps_btNodeEnd st) - fst (ps_btNodeStart st),
                            edit_toLength = snd (ps_btNodeEnd st) - snd (ps_btNodeStart st),
                            edit_sequence =
                              take (snd (ps_btNodeEnd st) - snd (ps_btNodeStart st))
                                (drop (snd (ps_btNodeStart st)) sequence)\<rparr>
                in \<lparr>alignment =
                      \<lparr>al_name = seq_id, al_score = score, al_sequence = sequence,
                       al_path = ps_done st
                                   @ [(ps_current st)\<lparr>map_edits :=
                                                        map_edits (ps_current st) @ [edit]\<rparr>]\<rparr>,
                    alignmentFailed = False, res_cellsProcessed = cells\<rparr>))))"

definition AlignOneWay ::
  "SweepEnv \<Rightarrow> int \<Rightarrow> AlignmentGraph \<Rightarrow> nat \<Rightarrow> string \<Rightarrow> string \<Rightarrow> nat \<Rightarrow> nat \<Rightarrow> AlignmentResult outcome"
  where
  "AlignOneWay env alignmentScoreMax g fuel seq_id sequence dynamicWidth dynamicRowStart =
    (let band = getFullBand g (length sequence) dynamicRowStart
     in case getBacktrace env g fuel sequence dynamicWidth dynamicRowStart band of
          Returned trace \<Rightarrow>
            (if fst trace = env_scoreMax env
             then Returned (emptyAlignment alignmentScoreMax (snd (snd trace)))
             else Returned (traceToAlignment alignmentScoreMax g seq_id sequence (fst trace)
                              (fst (snd trace)) (snd (snd trace))))
        | Undefined \<Rightarrow> Undefined
        | OutOfFuel \<Rightarrow> OutOfFuel)"

section \<open>Example inputs\<close>

text \<open>
  Small graphs and an environment (32-bit scores, the largest length as a parameter) on which
  the definitions are evaluated below. In
  \<open>singleNodeGraph n c\<close> one node holds \<open>n\<close> copies of the character \<open>c\<close>; in \<open>chainGraph\<close>
  node 0 spells AC, node 1 spells GT and there is an edge from node 0 to node 1. Neither has a
  feedback cut.
\<close>

definition singleNodeGraph :: "nat \<Rightarrow> char \<Rightarrow> AlignmentGraph" where
  "singleNodeGraph n c =
    \<lparr>nodeCount = 1, nodeStart = (\<lambda>i. 0), nodeEnd = (\<lambda>i. n), indexToNode = (\<lambda>p. 0),
     nodeSequences = (\<lambda>p. c), inNeighbors = (\<lambda>i. []), outNeighbors = (\<lambda>i. []),
     nodeIDs = (\<lambda>i. 1), isReverse = (\<lambda>i. False), firstInOrder = 0,
     dummyNodeStart = 1, dummyNodeEnd = 2\<rparr>"

definition chainGraph :: AlignmentGraph where
  "chainGraph =
    \<lparr>nodeCount = 2, nodeStart = (\<lambda>i. 2 * i), nodeEnd = (\<lambda>i. 2 * i + 2),
     indexToNode = (\<lambda>p. p div 2),
     nodeSequences = (\<lambda>p. ''ACGT'' ! p),
     inNeighbors = (\<lambda>i. if i = 1 then [0] else []),
     outNeighbors = (\<lambda>i. if i = 0 then [1] else []),
     nodeIDs = (\<lambda>i. int i + 1), isReverse = (\<lambda>i. False), firstInOrder = 0,
     dummyNodeStart = 2, dummyNodeEnd = 3\<rparr>"

definition exampleEnv :: "nat \<Rightarrow> SweepEnv" where
  "exampleEnv lengthMax =
    \<lparr>env_scoreMax = 2147483647, env_lengthMax = lengthMax,
     env_projectForwardAndExpandBand = (\<lambda>band idx width. (band, [], [])),
     env_cutCycles =
       (\<lambda>j sequence masks currentSlice previousSlice currentBand previousBand order.
          currentSlice)\<rparr>"

section \<open>Properties of the slice merge\<close>

lemma popcount_zero: "popcount 0 = 0"
  by (simp add: popcount_def)

lemma ChunkPopcounts_zero: "ChunkPopcounts 0 = 0"
  by (simp add: ChunkPopcounts_def)

lemma bytePrefixSums_zero: "bytePrefixSums 0 0 = 0"
  by (simp add: bytePrefixSums_def)

lemma byteVPVNSum_zero: "byteVPVNSum 0 0 = 0"
  by (simp add: byteVPVNSum_def)

lemma differenceMasks_prefix_zero: "differenceMasks_prefix 0 0 = 0"
  by (simp add: differenceMasks_prefix_def SignMask_def LSBMask_def ChunkBits_def)

lemma differenceMasks_loop_zero:
  "fold differenceMasks_step [0..<ChunkBits]
     \<lparr>ds_difference = 0, ds_leftVP = 0, ds_leftVN = 0, ds_rightVP = 0, ds_rightVN = 0,
      ds_resultLeftSmallerThanRight = 0, ds_resultRightSmallerThanLeft = 0\<rparr>
   = \<lparr>ds_difference = 0, ds_leftVP = 0, ds_leftVN = 0, ds_rightVP = 0, ds_rightVN = 0,
      ds_resultLeftSmallerThanRight = 0, ds_resultRightSmallerThanLeft = 0\<rparr>"
  by code_simp

lemma differenceMasks_same: "differenceMasks vp vn vp vn 0 = (0, 0)"
  by (simp add: differenceMasks_def popcount_zero AllOnes_def AllZeros_def
      ChunkPopcounts_zero bytePrefixSums_zero byteVPVNSum_zero differenceMasks_prefix_zero
      differenceMasks_loop_zero)

text \<open>
  C4. Merging a slice with itself gives the slice back, field for field: the masks of
  \<open>differenceMasks\<close> are both empty, so the merge mask and both reductions are empty and the
  left operand is returned. This holds for every slice, in particular for those satisfying
  the WordSlice invariants.
\<close>

theorem mergeTwoSlices_idempotent: "mergeTwoSlices a a = a"
  by (simp add: mergeTwoSlices_def differenceMasks_same)

section \<open>Properties of getNextSlice\<close>

lemma lastBitMask_test: "(w AND lastBitMask \<noteq> 0) = bit w 63" for w :: Word
proof -
  have top: "lastBitMask = 2 ^ 63"
    by (simp add: lastBitMask_def WordSize_def)
  show ?thesis
    unfolding top by (simp only: and_exp_eq_0_iff_not_bit simp_thms)
qed

text \<open>
  C5 as stated takes both terms of the minimum from one slice \<open>prev\<close>. The source takes
  \<open>scoreBeforeStart\<close> from the slice being advanced and \<open>scoreEnd\<close>, \<open>VP\<close>, \<open>VN\<close> from a
  different argument, the upper neighbour. With the slice being advanced at score 74
  throughout, the upper neighbour ending at 74 with bit 63 of its \<open>VP\<close> set and beginning at 10,
  and a matching diagonal character, the code yields 73; the formula read on the slice being
  advanced alone gives 74, and read on the upper neighbour alone gives 11.
\<close>

theorem getNextSlice_single_prev_counterexample:
  "scoreBeforeStart
     (getNextSlice 0 \<lparr>VP = 0, VN = 0, scoreEnd = 74, scoreBeforeStart = 74\<rparr> True True
        \<lparr>VP = AllOnes, VN = 0, scoreEnd = 74, scoreBeforeStart = 10\<rparr>) = 73
   \<and> min (scoreBeforeStart \<lparr>VP = 0, VN = 0, scoreEnd = 74, scoreBeforeStart = 74\<rparr> + 1)
         (scoreEnd \<lparr>VP = 0, VN = 0, scoreEnd = 74, scoreBeforeStart = 74\<rparr>
            - (if bit (VP \<lparr>VP = 0, VN = 0, scoreEnd = 74, scoreBeforeStart = 74 :: int\<rparr>) 63
               then 1 else 0)
            + (if bit (VN \<lparr>VP = 0, VN = 0, scoreEnd = 74, scoreBeforeStart = 74 :: int\<rparr>) 63
               then 1 else 0)
            + 0) = (74 :: int)
   \<and> min (scoreBeforeStart \<lparr>VP = AllOnes, VN = 0, scoreEnd = 74, scoreBeforeStart = 10\<rparr> + 1)
         (scoreEnd \<lparr>VP = AllOnes, VN = 0, scoreEnd = 74, scoreBeforeStart = 10\<rparr>
            - (if bit (VP \<lparr>VP = AllOnes, VN = 0, scoreEnd = 74, scoreBeforeStart = 10 :: int\<rparr>) 63
               then 1 else 0)
            + (if bit (VN \<lparr>VP = AllOnes, VN = 0, scoreEnd = 74, scoreBeforeStart = 10 :: int\<rparr>) 63
               then 1 else 0)
            + 0) = (11 :: int)"
  by (simp add: getNextSlice_def Let_def lastBitMask_test AllOnes_def)

text \<open>
  C5, amended. In \<open>getNextSlice(Eq, slice, previousInsideBand, previousEq, previous)\<close> the
  slice being advanced (\<open>slice\<close>, the previous cell of this column block) supplies
  \<open>scoreBeforeStart + 1\<close>; the upper neighbour (\<open>previous\<close>, a different slice, consulted only
  when \<open>previousInsideBand\<close> holds) supplies its \<open>scoreEnd\<close> moved back by one row with the top
  bits (bit 63) of its \<open>VP\<close> and \<open>VN\<close>, plus 0 when the diagonal character matched and 1
  otherwise. With an upper neighbour the new \<open>scoreBeforeStart\<close> is the minimum of the two,
  without one it is \<open>scoreBeforeStart + 1\<close> of the slice being advanced.
\<close>

theorem getNextSlice_scoreBeforeStart:
  "scoreBeforeStart (getNextSlice Eq slice0 previousInsideBand previousEq previous) =
    (if previousInsideBand
     then min (scoreBeforeStart slice0 + 1)
              (scoreEnd previous
                 - (if bit (VP previous) 63 then 1 else 0)
                 + (if bit (VN previous) 63 then 1 else 0)
                 + (if previousEq then 0 else 1))
     else scoreBeforeStart slice0 + 1)"
  by (simp add: getNextSlice_def Let_def lastBitMask_test)

lemma getNextSlice_advance:
  "getNextSlice Eq s b pe prev = advanceSlice Eq s (nextBeforeStart s b pe prev)"
  unfolding getNextSlice_def advanceSlice_def nextBeforeStart_def Let_def ..

section \<open>Properties of the column minimum\<close>

lemma outNeighborProbe_fold:
  "fold (outNeighborProbe g sequence j nodeCalc) ns (s, ix) =
    (if \<exists>n \<in> set ns. sequence ! (j + WordSize - 1) = nodeSequences g (nodeStart g n)
     then minScore nodeCalc - 1 else s, ix)"
  by (induction ns arbitrary: s) (auto simp: outNeighborProbe_def)

text \<open>
  C8. The out-neighbour fast path: when the node achieves the running column minimum, the
  node minimum lies on the node's final character, bit 63 of that cell's \<open>VP\<close> is set and
  the read character of the column's last row equals the first character of some
  out-neighbour, \<open>currentMinimumScore\<close> becomes \<open>minScore - 1\<close>, while
  \<open>currentMinimumIndex\<close> keeps the value it had before the probe (the node's own minimum
  position if the node had just lowered the running minimum, the earlier index otherwise); it
  is not replaced by the neighbour's first position.
\<close>

theorem fast_path_keeps_index:
  assumes "minScore nodeCalc \<le> currentMinimumScore"
    and "minScoreIndex nodeCalc = nodeEnd g i - 1"
    and "bit (VP lastCell) 63"
    and "neighbor \<in> set (outNeighbors g i)"
    and "sequence ! (j + 63) = nodeSequences g (nodeStart g neighbor)"
  shows "updateColumnMinimum g sequence j i nodeCalc lastCell
           (currentMinimumScore, currentMinimumIndex)
         = (minScore nodeCalc - 1,
            if minScore nodeCalc < currentMinimumScore then minScoreIndex nodeCalc
            else currentMinimumIndex)"
proof -
  have idx: "j + WordSize - 1 = j + 63"
    by (simp add: WordSize_def)
  have ex: "\<exists>n \<in> set (outNeighbors g i).
      sequence ! (j + WordSize - 1) = nodeSequences g (nodeStart g n)"
    unfolding idx using assms(4,5) by blast
  show ?thesis
    using assms(1,2,3) ex
    by (simp add: updateColumnMinimum_def outNeighborProbe_fold lastBitMask_test)
qed

theorem fast_path_keeps_index_witness:
  "updateColumnMinimum chainGraph (replicate 64 (CHR ''G'')) 0 0
     \<lparr>minScore = 5, minScoreIndex = 1, cellsProcessed = 128\<rparr>
     \<lparr>VP = 2 ^ 63, VN = 0, scoreEnd = 5, scoreBeforeStart = 4\<rparr> (5, 7)
   = (4, 7)
   \<and> nodeStart chainGraph 1 = 2 \<and> 7 \<noteq> nodeStart chainGraph 1"
proof -
  have "updateColumnMinimum chainGraph (replicate 64 (CHR ''G'')) 0 0
     \<lparr>minScore = 5, minScoreIndex = 1, cellsProcessed = 128\<rparr>
     \<lparr>VP = 2 ^ 63, VN = 0, scoreEnd = 5, scoreBeforeStart = 4\<rparr> (5, 7)
   = (minScore \<lparr>minScore = 5, minScoreIndex = 1, cellsProcessed = 128\<rparr> - 1,
      if minScore \<lparr>minScore = 5, minScoreIndex = 1, cellsProcessed = 128\<rparr> < 5
      then minScoreIndex \<lparr>minScore = 5, minScoreIndex = 1, cellsProcessed = 128\<rparr>
      else 7)"
    by (rule fast_path_keeps_index [where neighbor = 1])
       (simp_all add: chainGraph_def bit_exp_iff)
  then show ?thesis
    by (simp add: chainGraph_def)
qed

section \<open>Properties of the per-character update\<close>

lemma and_one_test: "(w AND 1 \<noteq> 0) = bit w 0" for w :: Word
  by (simp add: and_one_eq bit_0 mod_2_eq_odd)

lemma clear_lsb_Xv: "bit vn 0 \<Longrightarrow> (e AND NOT 1) OR vn = e OR vn" for e vn :: Word
  by (rule bit_eqI) (auto simp: bit_simps intro!: gr0I)

lemma clear_lsb_and: "\<not> bit vp 0 \<Longrightarrow> (e AND NOT 1) AND vp = e AND vp" for e vp :: Word
  by (rule bit_eqI) (auto simp: bit_simps intro!: gr0I)

lemma clear_lsb_Ph: "bit vn 0 \<Longrightarrow> vn OR NOT ((t OR (e AND NOT 1)) OR vp) = vn OR NOT ((t OR e) OR vp)"
  for e vn vp t :: Word
  by (rule bit_eqI) (auto simp: bit_simps intro!: gr0I)

lemma clear_lsb_Mh: "\<not> bit vp 0 \<Longrightarrow> vp AND (t OR (e AND NOT 1)) = vp AND (t OR e)"
  for e vp t :: Word
  by (rule bit_eqI) (auto simp: bit_simps intro!: gr0I)

lemma clear_lsb_or1: "(e AND NOT 1) OR 1 = e OR 1" for e :: Word
  by (rule bit_eqI) (auto simp: bit_simps)

lemma clear_lsb_id: "\<not> bit e 0 \<Longrightarrow> e AND NOT 1 = e" for e :: Word
  by (rule bit_eqI) (auto simp: bit_simps intro!: gr0I)

lemma disjoint_bit: "vp AND vn = 0 \<Longrightarrow> bit vn n \<Longrightarrow> \<not> bit vp n" for vp vn :: Word
  by (metis bit_and_iff bit_0_eq bot_apply bot_bool_def)

lemma advanceSlice_clear_lsb:
  assumes vn: "bit (VN s) 0" and vp: "\<not> bit (VP s) 0"
  shows "advanceSlice (Eq AND NOT 1) s nb = advanceSlice Eq s nb"
proof (cases "nb - scoreBeforeStart s < 0")
  case True
  then show ?thesis
    unfolding advanceSlice_def Let_def
    by (simp only: if_True clear_lsb_Xv[OF vn] clear_lsb_or1)
next
  case False
  then show ?thesis
    unfolding advanceSlice_def Let_def
    by (simp only: if_False clear_lsb_Xv[OF vn] clear_lsb_and[OF vp] clear_lsb_Ph[OF vn]
        clear_lsb_Mh[OF vp])
qed

lemma calculateNode_cell_clear_lsb:
  assumes "previousBand i" "currentBand i"
    and "firstZeroForced previousBand currentBand i (slice0 ! (w - 1)) Eq"
    and "VP (slice0 ! (w - 1)) AND VN (slice0 ! (w - 1)) = 0"
  shows "calculateNode_cell g i j sequence previousBand slice0 oldSlice w (Eq AND NOT 1)
       = calculateNode_cell g i j sequence previousBand slice0 oldSlice w Eq"
proof (cases "bit (VN (slice0 ! (w - 1))) 0")
  case True
  then have nvp: "\<not> bit (VP (slice0 ! (w - 1))) 0"
    using assms(4) disjoint_bit by blast
  show ?thesis
    unfolding calculateNode_cell_def getNextSlice_advance
    by (simp only: advanceSlice_clear_lsb [OF True nvp])
next
  case False
  then have ne: "\<not> bit Eq 0"
    using assms(1,2,3) by (simp add: firstZeroForced_def and_one_test split: if_splits)
  show ?thesis
    by (simp only: clear_lsb_id [OF ne])
qed

lemma calculateNode_char_cell:
  assumes "w < length slice0"
  shows "fst (calculateNode_char g i j sequence BA BT BC BG previousSlice currentBand
               previousBand w (slice0, result)) ! w
       = calculateNode_cell g i j sequence previousBand slice0
           (if previousBand i then previousSlice i else slice0) w
           (getEq g BA BT BC BG (nodeStart g i + w))"
  using assms by (simp add: calculateNode_char_def Let_def)


text \<open>
  C9 as stated fails: for a node that is not in the previous band \<open>firstZeroForced\<close> holds,
  yet the cell computed by the per-character update differs from the one obtained with the
  least-significant bit of \<open>Eq\<close> cleared. Here the previous cell is the source slice of
  score 10, every read character of the column matches, and the column starts at row 64.
\<close>

theorem firstZeroForced_suppression_counterexample:
  "firstZeroForced (\<lambda>n. False) (\<lambda>n. True) 0 (getSourceSliceFromScore 10) AllOnes
   \<and> fst (calculateNode_char (singleNodeGraph 2 (CHR ''A'')) 0 64 (replicate 128 (CHR ''A''))
            AllOnes 0 0 0 emptyNodeSlice (\<lambda>n. True) (\<lambda>n. False) 1
            ([getSourceSliceFromScore 10, defaultWordSlice],
             \<lparr>minScore = 74, minScoreIndex = 0, cellsProcessed = 0\<rparr>)) ! 1
       = \<lparr>VP = 0xFFFFFFFFFFFFFFFE, VN = 1, scoreEnd = 73, scoreBeforeStart = 11\<rparr>
   \<and> calculateNode_cell (singleNodeGraph 2 (CHR ''A'')) 0 64 (replicate 128 (CHR ''A''))
         (\<lambda>n. False) [getSourceSliceFromScore 10, defaultWordSlice]
         [getSourceSliceFromScore 10, defaultWordSlice] 1 (AllOnes AND NOT 1)
       = \<lparr>VP = 0xFFFFFFFFFFFFFFFC, VN = 0, scoreEnd = 73, scoreBeforeStart = 11\<rparr>"
  by (simp add: firstZeroForced_def calculateNode_char_def calculateNode_cell_def Let_def
      getEq_def singleNodeGraph_def getSourceSliceFromScore_def defaultWordSlice_def
      getNextSlice_def clampSlice_def scoreAboveRow_def AllOnes_def AllZeros_def WordSize_def
      lastBitMask_def)

text \<open>
  C9, amended. The per-character update hands the equality mask of the character to
  \<open>getNextSlice\<close> unchanged, whatever \<open>firstZeroForced\<close> returns. When the node is in both
  the previous and the current band, \<open>firstZeroForced\<close> holds and the previous cell has
  disjoint \<open>VP\<close> and \<open>VN\<close>, the cell so computed coincides with the one computed from the
  mask with its least-significant bit cleared.
\<close>

theorem calculateNode_char_keeps_Eq:
  assumes "w < length slice0"
  shows "fst (calculateNode_char g i j sequence BA BT BC BG previousSlice currentBand
               previousBand w (slice0, result)) ! w
         = calculateNode_cell g i j sequence previousBand slice0
             (if previousBand i then previousSlice i else slice0) w
             (getEq g BA BT BC BG (nodeStart g i + w))
       \<and> (previousBand i \<and> currentBand i
            \<and> firstZeroForced previousBand currentBand i (slice0 ! (w - 1))
                 (getEq g BA BT BC BG (nodeStart g i + w))
            \<and> VP (slice0 ! (w - 1)) AND VN (slice0 ! (w - 1)) = 0
          \<longrightarrow> calculateNode_cell g i j sequence previousBand slice0
                 (if previousBand i then previousSlice i else slice0) w
                 (getEq g BA BT BC BG (nodeStart g i + w) AND NOT 1)
              = calculateNode_cell g i j sequence previousBand slice0
                 (if previousBand i then previousSlice i else slice0) w
                 (getEq g BA BT BC BG (nodeStart g i + w)))"
proof (intro conjI impI)
  show "fst (calculateNode_char g i j sequence BA BT BC BG previousSlice currentBand
               previousBand w (slice0, result)) ! w
         = calculateNode_cell g i j sequence previousBand slice0
             (if previousBand i then previousSlice i else slice0) w
             (getEq g BA BT BC BG (nodeStart g i + w))"
    by (rule calculateNode_char_cell [OF assms])
next
  assume forced: "previousBand i \<and> currentBand i
      \<and> firstZeroForced previousBand currentBand i (slice0 ! (w - 1))
           (getEq g BA BT BC BG (nodeStart g i + w))
      \<and> VP (slice0 ! (w - 1)) AND VN (slice0 ! (w - 1)) = 0"
  show "calculateNode_cell g i j sequence previousBand slice0
          (if previousBand i then previousSlice i else slice0) w
          (getEq g BA BT BC BG (nodeStart g i + w) AND NOT 1)
        = calculateNode_cell g i j sequence previousBand slice0
          (if previousBand i then previousSlice i else slice0) w
          (getEq g BA BT BC BG (nodeStart g i + w))"
    by (rule calculateNode_cell_clear_lsb
          [OF conjunct1 [OF forced] conjunct1 [OF conjunct2 [OF forced]]
              conjunct1 [OF conjunct2 [OF conjunct2 [OF forced]]]
              conjunct2 [OF conjunct2 [OF conjunct2 [OF forced]]]])
qed

theorem calculateNode_char_keeps_Eq_witness:
  "(1::nat) < length [\<lparr>VP = 0, VN = 1, scoreEnd = 4, scoreBeforeStart = 5\<rparr>, defaultWordSlice]
   \<and> firstZeroForced (\<lambda>n. True) (\<lambda>n. True) 0
         \<lparr>VP = 0, VN = 1, scoreEnd = 4, scoreBeforeStart = 5\<rparr> AllOnes
   \<and> bit AllOnes 0
   \<and> calculateNode_cell (singleNodeGraph 2 (CHR ''A'')) 0 64 (replicate 128 (CHR ''A''))
         (\<lambda>n. True) [\<lparr>VP = 0, VN = 1, scoreEnd = 4, scoreBeforeStart = 5\<rparr>, defaultWordSlice]
         [\<lparr>VP = 0, VN = 0, scoreEnd = 5, scoreBeforeStart = 5\<rparr>,
          \<lparr>VP = 0, VN = 0, scoreEnd = 5, scoreBeforeStart = 5\<rparr>] 1 (AllOnes AND NOT 1)
     = calculateNode_cell (singleNodeGraph 2 (CHR ''A'')) 0 64 (replicate 128 (CHR ''A''))
         (\<lambda>n. True) [\<lparr>VP = 0, VN = 1, scoreEnd = 4, scoreBeforeStart = 5\<rparr>, defaultWordSlice]
         [\<lparr>VP = 0, VN = 0, scoreEnd = 5, scoreBeforeStart = 5\<rparr>,
          \<lparr>VP = 0, VN = 0, scoreEnd = 5, scoreBeforeStart = 5\<rparr>] 1 AllOnes"
  using calculateNode_char_keeps_Eq [of 1
      "[\<lparr>VP = 0, VN = 1, scoreEnd = 4, scoreBeforeStart = 5\<rparr>, defaultWordSlice]"
      "singleNodeGraph 2 (CHR ''A'')" 0 64 "replicate 128 (CHR ''A'')" AllOnes 0 0 0
      "\<lambda>n. [\<lparr>VP = 0, VN = 0, scoreEnd = 5, scoreBeforeStart = 5\<rparr>,
            \<lparr>VP = 0, VN = 0, scoreEnd = 5, scoreBeforeStart = 5\<rparr>]"
      "\<lambda>n. True" "\<lambda>n. True"]
  by (simp add: firstZeroForced_def getEq_def singleNodeGraph_def AllOnes_def)

end
